theory Spec2Isabelle
  imports Main "HOL-Library.Word"
begin

section \<open>Errors\<close>

text \<open>
  Go \<open>error\<close> values. \<open>Errorf\<close> carries the message of a \<open>fmt.Errorf\<close> call,
  \<open>ErrClosedPipe\<close> is the sentinel \<open>io.ErrClosedPipe\<close>, and \<open>ExternalError\<close>
  stands for any error produced by a collaborator (secure transport, track write, RTCP
  write). A Go \<open>error\<close> that may be \<open>nil\<close> is an \<open>error option\<close>.
\<close>

datatype error = Errorf string | ErrClosedPipe | ExternalError string

section \<open>The receiver (rtpreceiver.go)\<close>

subsection \<open>Data\<close>

datatype RTPCodecType = RTPCodecTypeUnset | RTPCodecTypeAudio | RTPCodecTypeVideo

text \<open>
  One entry of \<open>parameters.Encodings\<close>; the loop of \<open>Receive\<close> reads its fields
  \<open>RID\<close> and \<open>SSRC\<close>.
\<close>

record RTPDecodingParameters =
  enc_RID :: string
  enc_SSRC :: "32 word"

record RTPReceiveParameters =
  Encodings :: "RTPDecodingParameters list"

text \<open>
  \<open>TrackRTPStream\<close> as \<open>Receive\<close> fills it: \<open>id\<close> (here \<open>id'\<close>), \<open>rid\<close>, \<open>ssrc\<close>
  and the \<open>ready\<close> flag, whose zero value is \<open>false\<close>. The \<open>track\<close> back pointer is
  not needed by any operation below and is left out.
\<close>

record TrackRTPStream =
  id' :: string
  rid :: string
  ssrc :: "32 word"
  ready :: bool

text \<open>
  \<open>Track\<close> as \<open>Receive\<close> builds it. \<open>streams\<close> is a slice of pointers: an entry is
  \<open>None\<close> while the pointer is \<open>nil\<close>. The \<open>receiver\<close> back pointer is left out.
\<close>

record Track =
  kind :: RTPCodecType
  streams :: "TrackRTPStream option list"
  multiStream :: bool

datatype ReadStreamSRTP = ReadStreamSRTP "32 word"
datatype ReadStreamSRTCP = ReadStreamSRTCP "32 word"

text \<open>
  The secure transport is a collaborator. A session is what its \<open>OpenReadStream\<close>
  answers for a synchronization source: the returned pointer (possibly \<open>nil\<close>) and the
  returned error (possibly \<open>nil\<close>), as the Go pair. \<open>getSRTPSession\<close> and
  \<open>getSRTCPSession\<close> answer a session or an error.
\<close>

type_synonym SessionSRTP = "32 word \<Rightarrow> ReadStreamSRTP option \<times> error option"
type_synonym SessionSRTCP = "32 word \<Rightarrow> ReadStreamSRTCP option \<times> error option"

record DTLSTransport =
  getSRTPSession :: "error + SessionSRTP"
  getSRTCPSession :: "error + SessionSRTCP"

text \<open>
  \<open>RTPReceiver\<close>. The channels \<open>closed\<close> and \<open>received\<close> are only ever closed, never
  sent on, so each is a flag: \<open>True\<close> once the channel is closed. The field \<open>kind\<close> is
  \<open>rkind\<close> here (the name is taken by \<open>Track\<close>). The mutex makes \<open>Receive\<close> and
  \<open>Stop\<close> atomic, which is how they are modelled; the \<open>api\<close> pointer is never used.
\<close>

record RTPReceiver =
  rkind :: RTPCodecType
  transport :: DTLSTransport
  track :: "Track option"
  closed :: bool
  received :: bool
  rtpReadStream :: "ReadStreamSRTP option"
  rtcpReadStream :: "ReadStreamSRTCP option"

subsection \<open>NewRTPReceiver\<close>

definition NewRTPReceiver :: "RTPCodecType \<Rightarrow> DTLSTransport option \<Rightarrow> error + RTPReceiver" where
  "NewRTPReceiver k tr =
     (case tr of
        None \<Rightarrow> Inl (Errorf ''DTLSTransport must not be nil'')
      | Some t \<Rightarrow>
          Inr \<lparr>rkind = k, transport = t, track = None, closed = False, received = False,
               rtpReadStream = None, rtcpReadStream = None\<rparr>)"

subsection \<open>strconv.FormatUint\<close>

text \<open>
  \<open>strconv.FormatUint(n, base)\<close> of the Go library, for the bases 2 to 36 it accepts
  (it panics on any other base; the one call in \<open>Receive\<close> passes 10).
\<close>

definition digit_char :: "nat \<Rightarrow> char" where
  "digit_char d = (''0123456789abcdefghijklmnopqrstuvwxyz'' ! d)"

function FormatUint :: "nat \<Rightarrow> nat \<Rightarrow> string" where
  "FormatUint n base =
     (if base < 2 \<or> 36 < base then []
      else if n < base then [digit_char n]
      else FormatUint (n div base) base @ [digit_char (n mod base)])"
  by pat_completeness auto
termination
  by (relation "measure (\<lambda>(n, base). n)") auto

declare FormatUint.simps [simp del]

subsection \<open>Receive\<close>

text \<open>
  The calls \<open>Receive\<close> makes on the secure transport, in the order it makes them.
\<close>

datatype transport_call =
    GetSRTPSession
  | OpenReadStreamSRTP "32 word"
  | GetSRTCPSession
  | OpenReadStreamSRTCP "32 word"

text \<open>
  The loop \<open>for i, enc := range parameters.Encodings\<close>. Its body stores a new stream at
  index \<open>i\<close>, writes \<open>enc.SSRC\<close> into \<open>streams[0].ssrc\<close>, and ends in \<open>break\<close>
  ("only one ssrc is supported"): the encodings after the first are not visited. In the
  only iteration that runs \<open>i\<close> is 0, so \<open>streams[0]\<close> is the stream just stored.
  \<open>new_TrackRTPStream\<close> is the struct literal of the body, with
  \<open>streamId := strconv.FormatUint(uint64(enc.SSRC), 10)\<close>.
\<close>

definition new_TrackRTPStream :: "RTPDecodingParameters \<Rightarrow> TrackRTPStream" where
  "new_TrackRTPStream enc =
     (let streamId = FormatUint (unat (ucast (enc_SSRC enc) :: 64 word)) 10
      in \<lparr>id' = streamId, rid = enc_RID enc, ssrc = enc_SSRC enc, ready = False\<rparr>)"

fun range_Encodings :: "nat \<Rightarrow> RTPDecodingParameters list \<Rightarrow> Track \<Rightarrow> Track" where
  "range_Encodings i [] t = t"
| "range_Encodings i (enc # rest) t =
     (let t1 = t\<lparr>streams := (streams t)[i := Some (new_TrackRTPStream enc)]\<rparr>;
          t2 = t1\<lparr>streams := (streams t1)
                 [0 := map_option (\<lambda>s. s\<lparr>ssrc := enc_SSRC enc\<rparr>) (streams t1 ! 0)]\<rparr>
      in t2)"

text \<open>
  The part of \<open>Receive\<close> after \<open>defer close(r.received)\<close>, for a non-empty encoding
  list: the new state, the returned error and the transport calls made.
\<close>

definition Receive_body ::
  "RTPReceiveParameters \<Rightarrow> RTPReceiver \<Rightarrow> RTPReceiver \<times> error option \<times> transport_call list" where
  "Receive_body parameters r =
     (let encs = Encodings parameters;
          r1 = r\<lparr>track := Some \<lparr>kind = rkind r,
                                 streams = replicate (length encs) None,
                                 multiStream = (length encs > 1)\<rparr>\<rparr>;
          r2 = r1\<lparr>track := map_option (range_Encodings 0 encs) (track r1)\<rparr>;
          s0 = enc_SSRC (encs ! 0)
      in case getSRTPSession (transport r2) of
           Inl err \<Rightarrow> (r2, Some err, [GetSRTPSession])
         | Inr srtpSession \<Rightarrow>
             (let (rs, err) = srtpSession s0;
                  r3 = r2\<lparr>rtpReadStream := rs\<rparr>
              in if err \<noteq> None then (r3, err, [GetSRTPSession, OpenReadStreamSRTP s0])
                 else case getSRTCPSession (transport r3) of
                        Inl err \<Rightarrow>
                          (r3, Some err, [GetSRTPSession, OpenReadStreamSRTP s0, GetSRTCPSession])
                      | Inr srtcpSession \<Rightarrow>
                          (let (cs, err) = srtcpSession s0;
                               r4 = r3\<lparr>rtcpReadStream := cs\<rparr>;
                               calls = [GetSRTPSession, OpenReadStreamSRTP s0,
                                        GetSRTCPSession, OpenReadStreamSRTCP s0]
                           in if err \<noteq> None then (r4, err, calls)
                              else (r4\<lparr>track := map_option
                                         (\<lambda>t. t\<lparr>streams := (streams t)
                                            [0 := map_option (\<lambda>s. s\<lparr>ready := True\<rparr>)
                                                    (streams t ! 0)]\<rparr>)
                                         (track r4)\<rparr>,
                                    None, calls))))"

text \<open>
  \<open>defer close(r.received)\<close>: whatever the rest of \<open>Receive\<close> returns, the channel is
  closed on the way out.
\<close>

definition close_received ::
  "RTPReceiver \<times> error option \<times> transport_call list \<Rightarrow>
   RTPReceiver \<times> error option \<times> transport_call list" where
  "close_received res = (case res of (r, err, calls) \<Rightarrow> (r\<lparr>received := True\<rparr>, err, calls))"

definition Receive ::
  "RTPReceiveParameters \<Rightarrow> RTPReceiver \<Rightarrow> RTPReceiver \<times> error option \<times> transport_call list" where
  "Receive parameters r =
     (if length (Encodings parameters) = 0
      then (r, Some (Errorf ''no encodings provided''), [])
      else if received r
      then (r, Some (Errorf ''Receive has already been called''), [])
      else close_received (Receive_body parameters r))"

subsection \<open>Read, readRTP, haveReceived\<close>

text \<open>
  \<open>Read\<close> and \<open>readRTP\<close> wait on \<open>r.received\<close> and then read from the stream field.
  \<open>None\<close> is a call still blocked on the latch; \<open>Some s\<close> is a call that has passed
  the latch and reads from \<open>s\<close>, the content of the stream field at that moment.
\<close>

definition haveReceived :: "RTPReceiver \<Rightarrow> bool" where
  "haveReceived r = received r"

definition Read :: "RTPReceiver \<Rightarrow> ReadStreamSRTCP option option" where
  "Read r = (if received r then Some (rtcpReadStream r) else None)"

definition readRTP :: "RTPReceiver \<Rightarrow> ReadStreamSRTP option option" where
  "readRTP r = (if received r then Some (rtpReadStream r) else None)"

subsection \<open>Stop\<close>

text \<open>
  What the two \<open>Close\<close> calls answer is the collaborator's business: \<open>close_env\<close>
  gives the answer for each stream. \<open>Stop\<close> returns the new state, the returned error
  and the \<open>Close\<close> calls it made, in order.
\<close>

record close_env =
  rtcp_Close :: "ReadStreamSRTCP \<Rightarrow> error option"
  rtp_Close :: "ReadStreamSRTP \<Rightarrow> error option"

datatype close_call = CloseRTCP ReadStreamSRTCP | CloseRTP ReadStreamSRTP

definition Stop :: "close_env \<Rightarrow> RTPReceiver \<Rightarrow> RTPReceiver \<times> error option \<times> close_call list" where
  "Stop env r =
     (if closed r then (r, None, [])
      else if received r then
        (let (e1, c1) = (case rtcpReadStream r of
                           None \<Rightarrow> (None, [])
                         | Some s \<Rightarrow> (rtcp_Close env s, [CloseRTCP s]))
         in if e1 \<noteq> None then (r, e1, c1)
            else
              (let (e2, c2) = (case rtpReadStream r of
                                 None \<Rightarrow> (None, [])
                               | Some s \<Rightarrow> (rtp_Close env s, [CloseRTP s]))
               in if e2 \<noteq> None then (r, e2, c1 @ c2)
                  else (r\<lparr>closed := True\<rparr>, None, c1 @ c2)))
      else (r\<lparr>closed := True\<rparr>, None, []))"

subsection \<open>Sequences of calls\<close>

text \<open>
  A receiver is driven by \<open>Receive\<close> and \<open>Stop\<close> calls, serialised by its mutex.
  \<open>run_calls\<close> gives the state after a sequence of them.
\<close>

datatype receiver_call = CallReceive RTPReceiveParameters | CallStop close_env

fun call_step :: "receiver_call \<Rightarrow> RTPReceiver \<Rightarrow> RTPReceiver" where
  "call_step (CallReceive parameters) r = fst (Receive parameters r)"
| "call_step (CallStop env) r = fst (Stop env r)"

fun run_calls :: "receiver_call list \<Rightarrow> RTPReceiver \<Rightarrow> RTPReceiver" where
  "run_calls [] r = r"
| "run_calls (c # cs) r = run_calls cs (call_step c r)"

section \<open>The example programs (main.go)\<close>

text \<open>
  Two versions of the example are in the repository: the simulcast example, whose
  feedback ticker has a period of 3 seconds, and an echo variant of it with a period of
  1 second. Their \<open>OnTrack\<close> handlers start, for each stream of the track, a feedback
  goroutine and a read loop. The definitions ending in \<open>_simulcast\<close> are the former's,
  those ending in \<open>_echo\<close> the latter's.
\<close>

subsection \<open>Data\<close>

text \<open>An RTP packet: the header fields and the payload.\<close>

record Packet =
  SSRC :: "32 word"
  SequenceNumber :: "16 word"
  Timestamp :: "32 word"
  PayloadType :: "8 word"
  Payload :: "8 word list"

text \<open>
  An output track, as \<open>peerConnection.NewTrack(payloadType, ssrc, id, label)\<close> makes it.
\<close>

record OutboundTrack =
  out_payloadType :: "8 word"
  out_ssrc :: "32 word"
  out_id :: string
  out_label :: string

definition NewTrack :: "8 word \<Rightarrow> 32 word \<Rightarrow> string \<Rightarrow> string \<Rightarrow> OutboundTrack" where
  "NewTrack pt s i l = \<lparr>out_payloadType = pt, out_ssrc = s, out_id = i, out_label = l\<rparr>"

text \<open>
  Modelled from the spec: the accessor \<open>SSRC()\<close> of an output track is defined
  elsewhere in the package; the OutboundTrack has "its own synchronization source (for
  rewriting)", which the accessor returns.
\<close>

definition TrackSSRC :: "OutboundTrack \<Rightarrow> 32 word" where
  "TrackSSRC t = out_ssrc t"

text \<open>
  Modelled from the spec: the accessors \<open>RID()\<close> and \<open>SSRC()\<close> of a
  \<open>TrackRTPStream\<close> are defined elsewhere in the package; "each Layer exposes:
  identifier, synchronization source", the fields \<open>rid\<close> and \<open>ssrc\<close> that
  \<open>Receive\<close> fills.
\<close>

definition StreamRID :: "TrackRTPStream \<Rightarrow> string" where
  "StreamRID s = rid s"

definition StreamSSRC :: "TrackRTPStream \<Rightarrow> 32 word" where
  "StreamSSRC s = ssrc s"

text \<open>
  The map \<open>outputTracks\<close> as \<open>main\<close> fills it: one track for each of the identifiers
  \<open>q\<close>, \<open>h\<close> and \<open>f\<close>, all with the payload type of the first video codec and each
  with the result of its own \<open>rand.Uint32()\<close> call.
\<close>

definition outputTracks_main ::
  "8 word \<Rightarrow> 32 word \<Rightarrow> 32 word \<Rightarrow> 32 word \<Rightarrow> (string \<rightharpoonup> OutboundTrack)" where
  "outputTracks_main pt sq sh sf =
     [''q'' \<mapsto> NewTrack pt sq ''video_q'' ''pion_q'',
      ''h'' \<mapsto> NewTrack pt sh ''video_h'' ''pion_h'',
      ''f'' \<mapsto> NewTrack pt sf ''video_f'' ''pion_f'']"

subsection \<open>The read loop\<close>

text \<open>
  One iteration of the read loop calls \<open>inStream.ReadRTP()\<close> and, unless it panics
  before, \<open>WriteRTP\<close> on the output track. What the two calls answer comes from outside:
  \<open>io_step\<close> holds the packet pointer and the error returned by \<open>ReadRTP\<close>, and the
  error that \<open>WriteRTP\<close> returns if it is called.
\<close>

record io_step =
  read_packet :: "Packet option"
  read_err :: "error option"
  write_err :: "error option"

datatype loop_event = CallReadRTP | CallWriteRTP string Packet

text \<open>
  A panic carries the value given to \<open>panic\<close> (an \<open>error\<close>, possibly \<open>nil\<close>), or is the
  run-time panic of a method call or field access through a \<open>nil\<close> pointer.
\<close>

datatype panic_value = PanicError "error option" | NilDereference

text \<open>
  The rewrite and the write, the same statements in both programs:
  \<open>packet.SSRC = outputTracks[rid].SSRC()\<close>, then \<open>WriteRTP(packet)\<close> on the same
  track, with a panic on every write error other than \<open>io.ErrClosedPipe\<close>. A missing
  key gives a \<open>nil\<close> track, and a \<open>nil\<close> packet cannot be assigned to.
\<close>

definition rewrite_and_write ::
  "(string \<rightharpoonup> OutboundTrack) \<Rightarrow> string \<Rightarrow> Packet option \<Rightarrow> error option \<Rightarrow>
   loop_event list \<times> panic_value option" where
  "rewrite_and_write outputTracks rid' packet writeErr =
     (case outputTracks rid' of
        None \<Rightarrow> ([], Some NilDereference)
      | Some out \<Rightarrow>
          (case packet of
             None \<Rightarrow> ([], Some NilDereference)
           | Some p \<Rightarrow>
               (let p' = p\<lparr>SSRC := TrackSSRC out\<rparr>
                in if writeErr \<noteq> None \<and> writeErr \<noteq> Some ErrClosedPipe
                   then ([CallWriteRTP rid' p'], Some (PanicError writeErr))
                   else ([CallWriteRTP rid' p'], None))))"

text \<open>
  The loop body of the simulcast example. The test after the read is \<open>if err != nil\<close>,
  where \<open>err\<close> is the variable of \<open>main\<close> that the closure captures (the parameter
  \<open>err\<close> here), and the panic value is \<open>readErr\<close>.
\<close>

definition body_simulcast ::
  "(string \<rightharpoonup> OutboundTrack) \<Rightarrow> string \<Rightarrow> error option \<Rightarrow> io_step \<Rightarrow>
   loop_event list \<times> panic_value option" where
  "body_simulcast outputTracks rid' err io =
     (let packet = read_packet io; readErr = read_err io
      in if err \<noteq> None then ([CallReadRTP], Some (PanicError readErr))
         else (case rewrite_and_write outputTracks rid' packet (write_err io) of
                 (evs, p) \<Rightarrow> (CallReadRTP # evs, p)))"

text \<open>
  The loop body of the echo variant: \<open>packet, err := inStream.ReadRTP()\<close> followed by
  \<open>if err != nil { panic(err) }\<close>.
\<close>

definition body_echo ::
  "(string \<rightharpoonup> OutboundTrack) \<Rightarrow> string \<Rightarrow> io_step \<Rightarrow>
   loop_event list \<times> panic_value option" where
  "body_echo outputTracks rid' io =
     (let packet = read_packet io; err = read_err io
      in if err \<noteq> None then ([CallReadRTP], Some (PanicError err))
         else (case rewrite_and_write outputTracks rid' packet (write_err io) of
                 (evs, p) \<Rightarrow> (CallReadRTP # evs, p)))"

text \<open>
  \<open>for { ... }\<close>: the loop runs its body on one \<open>io_step\<close> after the other and ends
  only in a panic. When the steps given are used up it is blocked in the next
  \<open>ReadRTP\<close>.
\<close>

datatype loop_outcome = Panicked panic_value | BlockedInReadRTP

fun run_loop ::
  "(io_step \<Rightarrow> loop_event list \<times> panic_value option) \<Rightarrow> io_step list \<Rightarrow>
   loop_event list \<times> loop_outcome" where
  "run_loop body [] = ([], BlockedInReadRTP)"
| "run_loop body (io # ios) =
     (case body io of
        (evs, Some p) \<Rightarrow> (evs, Panicked p)
      | (evs, None) \<Rightarrow> (case run_loop body ios of (evs', oc) \<Rightarrow> (evs @ evs', oc)))"

definition read_loop_simulcast ::
  "(string \<rightharpoonup> OutboundTrack) \<Rightarrow> string \<Rightarrow> error option \<Rightarrow> io_step list \<Rightarrow>
   loop_event list \<times> loop_outcome" where
  "read_loop_simulcast outputTracks rid' err ios =
     run_loop (body_simulcast outputTracks rid' err) ios"

definition read_loop_echo ::
  "(string \<rightharpoonup> OutboundTrack) \<Rightarrow> string \<Rightarrow> io_step list \<Rightarrow>
   loop_event list \<times> loop_outcome" where
  "read_loop_echo outputTracks rid' ios = run_loop (body_echo outputTracks rid') ios"

text \<open>The packets handed to \<open>WriteRTP\<close>, with the key of the track, in order.\<close>

fun written :: "loop_event list \<Rightarrow> (string \<times> Packet) list" where
  "written [] = []"
| "written (CallReadRTP # evs) = written evs"
| "written (CallWriteRTP k p # evs) = (k, p) # written evs"

subsection \<open>The feedback ticker\<close>

text \<open>
  The two RTCP messages the ticker sends, with the fields of the Go structs; a field that
  the struct literal leaves out has its zero value.
\<close>

datatype rtcp_Packet =
    PictureLossIndication (pli_SenderSSRC: "32 word") (pli_MediaSSRC: "32 word")
  | ReceiverEstimatedMaximumBitrate (remb_SenderSSRC: "32 word") (remb_Bitrate: "64 word")
      (remb_SSRCs: "32 word list")

text \<open>
  What a tick does, in order: the lines it prints (\<open>Printf_pli\<close> and \<open>Printf_remb\<close> with
  the rid and the ssrc in the simulcast example, \<open>Printf_pli_ssrc\<close> with the ssrc in the
  echo variant, \<open>Println\<close> for a write error) and its \<open>WriteRTCP\<close> calls.
\<close>

datatype ticker_event =
    Printf_pli string "32 word"
  | Printf_remb string "32 word"
  | Printf_pli_ssrc "32 word"
  | Println error
  | WriteRTCP "rtcp_Packet list"

definition print_error :: "error option \<Rightarrow> ticker_event list" where
  "print_error writeErr = (case writeErr of None \<Rightarrow> [] | Some e \<Rightarrow> [Println e])"

text \<open>
  One tick of each program; \<open>w1\<close> and \<open>w2\<close> are what the first and the second
  \<open>WriteRTCP\<close> call return.
\<close>

definition tick_simulcast :: "TrackRTPStream \<Rightarrow> error option \<times> error option \<Rightarrow> ticker_event list" where
  "tick_simulcast inStream w =
     (case w of (w1, w2) \<Rightarrow>
        [Printf_pli (StreamRID inStream) (StreamSSRC inStream),
         WriteRTCP [PictureLossIndication 0 (StreamSSRC inStream)]]
        @ print_error w1
        @ [Printf_remb (StreamRID inStream) (StreamSSRC inStream),
           WriteRTCP [ReceiverEstimatedMaximumBitrate (StreamSSRC inStream) 10000000 []]]
        @ print_error w2)"

definition tick_echo :: "TrackRTPStream \<Rightarrow> error option \<times> error option \<Rightarrow> ticker_event list" where
  "tick_echo inStream w =
     (case w of (w1, w2) \<Rightarrow>
        [Printf_pli_ssrc (StreamSSRC inStream),
         WriteRTCP [PictureLossIndication 0 (StreamSSRC inStream)]]
        @ print_error w1
        @ [WriteRTCP [ReceiverEstimatedMaximumBitrate (StreamSSRC inStream) 10000000 []]]
        @ print_error w2)"

text \<open>
  The ticker loop: one tick after the other, for as many ticks as the timer delivers;
  no write error ends it.
\<close>

fun ticker_loop ::
  "(error option \<times> error option \<Rightarrow> ticker_event list) \<Rightarrow> (error option \<times> error option) list \<Rightarrow>
   ticker_event list" where
  "ticker_loop tick [] = []"
| "ticker_loop tick (w # ws) = tick w @ ticker_loop tick ws"

definition feedback_simulcast ::
  "TrackRTPStream \<Rightarrow> (error option \<times> error option) list \<Rightarrow> ticker_event list" where
  "feedback_simulcast inStream ws = ticker_loop (tick_simulcast inStream) ws"

definition feedback_echo ::
  "TrackRTPStream \<Rightarrow> (error option \<times> error option) list \<Rightarrow> ticker_event list" where
  "feedback_echo inStream ws = ticker_loop (tick_echo inStream) ws"

text \<open>The RTCP messages sent, in order, one entry for each \<open>WriteRTCP\<close> call.\<close>

fun sent :: "ticker_event list \<Rightarrow> rtcp_Packet list list" where
  "sent [] = []"
| "sent (WriteRTCP ps # evs) = ps # sent evs"
| "sent (_ # evs) = sent evs"

text \<open>
  The media sources an RTCP message is addressed to, as the \<open>DestinationSSRC()\<close>
  method of the rtcp library gives them: the \<open>MediaSSRC\<close> of a Picture Loss
  Indication, the \<open>SSRCs\<close> list of a REMB. The \<open>SenderSSRC\<close> of either message
  names who sends it.
\<close>

fun DestinationSSRC :: "rtcp_Packet \<Rightarrow> 32 word list" where
  "DestinationSSRC (PictureLossIndication sender media) = [media]"
| "DestinationSSRC (ReceiverEstimatedMaximumBitrate sender bitrate ssrcs) = ssrcs"

section \<open>Scenarios\<close>

text \<open>
  Concrete collaborators and inputs for the scenarios below: a transport on which every
  stream opens, one whose RTP stream fails to open, the receiver \<open>NewRTPReceiver\<close>
  returns for a video transceiver, the three encodings \<open>q\<close>, \<open>h\<close>, \<open>f\<close>, and the
  receiver after a successful \<open>Receive\<close> of them.
\<close>

definition working_transport :: DTLSTransport where
  "working_transport =
     \<lparr>getSRTPSession = Inr (\<lambda>s. (Some (ReadStreamSRTP s), None)),
      getSRTCPSession = Inr (\<lambda>s. (Some (ReadStreamSRTCP s), None))\<rparr>"

definition failing_transport :: DTLSTransport where
  "failing_transport =
     \<lparr>getSRTPSession = Inr (\<lambda>s. (None, Some (ExternalError ''open failed''))),
      getSRTCPSession = Inr (\<lambda>s. (Some (ReadStreamSRTCP s), None))\<rparr>"

definition created_receiver :: "DTLSTransport \<Rightarrow> RTPReceiver" where
  "created_receiver t =
     \<lparr>rkind = RTPCodecTypeVideo, transport = t, track = None, closed = False,
      received = False, rtpReadStream = None, rtcpReadStream = None\<rparr>"

definition encodings_qhf :: RTPReceiveParameters where
  "encodings_qhf =
     \<lparr>Encodings = [\<lparr>enc_RID = ''q'', enc_SSRC = 111\<rparr>,
                   \<lparr>enc_RID = ''h'', enc_SSRC = 112\<rparr>,
                   \<lparr>enc_RID = ''f'', enc_SSRC = 113\<rparr>]\<rparr>"

definition receiving_receiver :: RTPReceiver where
  "receiving_receiver = fst (Receive encodings_qhf (created_receiver working_transport))"

text \<open>Streams that close without error, and a control stream whose \<open>Close\<close> fails.\<close>

definition close_ok :: close_env where
  "close_ok = \<lparr>rtcp_Close = (\<lambda>s. None), rtp_Close = (\<lambda>s. None)\<rparr>"

definition close_rtcp_fails :: close_env where
  "close_rtcp_fails =
     \<lparr>rtcp_Close = (\<lambda>s. Some (ExternalError ''close failed'')), rtp_Close = (\<lambda>s. None)\<rparr>"

text \<open>
  A packet of the inbound stream with SSRC 111; a read that returns it, followed by a
  write that returns \<open>w\<close>; and a read that fails: \<open>ReadRTP\<close> returns an error and
  no packet.
\<close>

definition packet_111 :: Packet where
  "packet_111 =
     \<lparr>SSRC = 111, SequenceNumber = 7, Timestamp = 9000, PayloadType = 96,
      Payload = [1, 2, 3]\<rparr>"

definition read_ok :: "error option \<Rightarrow> io_step" where
  "read_ok w = \<lparr>read_packet = Some packet_111, read_err = None, write_err = w\<rparr>"

definition read_failed :: io_step where
  "read_failed =
     \<lparr>read_packet = None, read_err = Some (ExternalError ''read failed''),
      write_err = None\<rparr>"

text \<open>The stream of the layer \<open>q\<close>, as \<open>Receive\<close> leaves it in the scenario above.\<close>

definition inStream_q :: TrackRTPStream where
  "inStream_q = \<lparr>id' = ''111'', rid = ''q'', ssrc = 111, ready = True\<rparr>"

section \<open>Properties of the receiver\<close>

subsection \<open>The latch and the closed marker\<close>

lemma Receive_body_received: "received (fst (Receive_body p r)) = received r"
  by (simp add: Receive_body_def Let_def split: sum.splits prod.splits)

lemma Receive_body_closed: "closed (fst (Receive_body p r)) = closed r"
  by (simp add: Receive_body_def Let_def split: sum.splits prod.splits)

lemma fst_close_received: "fst (close_received res) = (fst res)\<lparr>received := True\<rparr>"
  by (simp add: close_received_def split: prod.splits)

lemma snd_close_received: "snd (close_received res) = snd res"
  by (simp add: close_received_def split: prod.splits)

lemma Receive_received:
  "received (fst (Receive p r)) = (received r \<or> Encodings p \<noteq> [])"
  by (simp add: Receive_def fst_close_received)

lemma Receive_closed: "closed (fst (Receive p r)) = closed r"
  by (simp add: Receive_def fst_close_received Receive_body_closed)

lemma Receive_when_received:
  "received r \<Longrightarrow> Encodings p \<noteq> [] \<Longrightarrow>
   Receive p r = (r, Some (Errorf ''Receive has already been called''), [])"
  by (simp add: Receive_def)

lemma Receive_error_when_received: "received r \<Longrightarrow> fst (snd (Receive p r)) \<noteq> None"
  by (simp add: Receive_def)

lemma Receive_success_guards:
  "fst (snd (Receive p r)) = None \<Longrightarrow> Encodings p \<noteq> [] \<and> \<not> received r"
  by (auto simp: Receive_def split: if_splits)

lemma Stop_received: "received (fst (Stop env r)) = received r"
  by (simp add: Stop_def Let_def split: option.splits prod.splits)

lemma Stop_when_closed: "closed r \<Longrightarrow> Stop env r = (r, None, [])"
  by (simp add: Stop_def)

lemma Stop_success_closed: "fst (snd (Stop env r)) = None \<Longrightarrow> closed (fst (Stop env r))"
  by (auto simp: Stop_def Let_def split: if_splits option.splits prod.splits)

lemma call_step_received: "received r \<Longrightarrow> received (call_step c r)"
  by (cases c) (simp_all add: Receive_received Stop_received)

lemma call_step_closed: "closed r \<Longrightarrow> closed (call_step c r)"
  by (cases c) (simp_all add: Receive_closed Stop_when_closed)

lemma run_calls_received: "received r \<Longrightarrow> received (run_calls cs r)"
  by (induction cs arbitrary: r) (simp_all add: call_step_received)

lemma run_calls_closed: "closed r \<Longrightarrow> closed (run_calls cs r)"
  by (induction cs arbitrary: r) (simp_all add: call_step_closed)

subsection \<open>The scenarios, evaluated\<close>

lemma NewRTPReceiver_created:
  "NewRTPReceiver RTPCodecTypeVideo (Some t) = Inr (created_receiver t)"
  by (simp add: NewRTPReceiver_def created_receiver_def)

lemma FormatUint_111: "FormatUint 111 10 = ''111''"
  by (simp add: FormatUint.simps digit_char_def)

lemma Receive_qhf:
  "Receive encodings_qhf (created_receiver working_transport)
     = (\<lparr>rkind = RTPCodecTypeVideo, transport = working_transport,
         track = Some \<lparr>kind = RTPCodecTypeVideo,
                       streams = [Some \<lparr>id' = ''111'', rid = ''q'', ssrc = 111,
                                        ready = True\<rparr>, None, None],
                       multiStream = True\<rparr>,
         closed = False, received = True,
         rtpReadStream = Some (ReadStreamSRTP 111),
         rtcpReadStream = Some (ReadStreamSRTCP 111)\<rparr>,
        None,
        [GetSRTPSession, OpenReadStreamSRTP 111, GetSRTCPSession, OpenReadStreamSRTCP 111])"
  by (simp add: Receive_def Receive_body_def close_received_def encodings_qhf_def
        created_receiver_def working_transport_def new_TrackRTPStream_def FormatUint_111)

lemma receiving_receiver_eq:
  "receiving_receiver
     = \<lparr>rkind = RTPCodecTypeVideo, transport = working_transport,
        track = Some \<lparr>kind = RTPCodecTypeVideo,
                      streams = [Some \<lparr>id' = ''111'', rid = ''q'', ssrc = 111,
                                       ready = True\<rparr>, None, None],
                      multiStream = True\<rparr>,
        closed = False, received = True,
        rtpReadStream = Some (ReadStreamSRTP 111),
        rtcpReadStream = Some (ReadStreamSRTCP 111)\<rparr>"
  by (simp add: receiving_receiver_def Receive_qhf)

lemma Receive_qhf_failing:
  "Receive encodings_qhf (created_receiver failing_transport)
     = (\<lparr>rkind = RTPCodecTypeVideo, transport = failing_transport,
         track = Some \<lparr>kind = RTPCodecTypeVideo,
                       streams = [Some \<lparr>id' = ''111'', rid = ''q'', ssrc = 111,
                                        ready = False\<rparr>, None, None],
                       multiStream = True\<rparr>,
         closed = False, received = True,
         rtpReadStream = None, rtcpReadStream = None\<rparr>,
        Some (ExternalError ''open failed''),
        [GetSRTPSession, OpenReadStreamSRTP 111])"
  by (simp add: Receive_def Receive_body_def close_received_def encodings_qhf_def
        created_receiver_def failing_transport_def new_TrackRTPStream_def FormatUint_111)

subsection \<open>The track that Receive builds\<close>

lemma Receive_body_track:
  assumes "Encodings p = enc # rest"
  shows "track (fst (Receive_body p r))
           = Some \<lparr>kind = rkind r,
                   streams = Some ((new_TrackRTPStream enc)
                                     \<lparr>ready := (fst (snd (Receive_body p r)) = None)\<rparr>)
                               # replicate (length rest) None,
                   multiStream = (rest \<noteq> [])\<rparr>"
  using assms
  by (simp add: Receive_body_def Let_def new_TrackRTPStream_def
        split: sum.splits prod.splits)

lemma Receive_success_track:
  assumes "fst (snd (Receive p r)) = None"
  shows "\<exists>enc rest. Encodings p = enc # rest \<and>
           track (fst (Receive p r))
             = Some \<lparr>kind = rkind r,
                     streams = Some ((new_TrackRTPStream enc)\<lparr>ready := True\<rparr>)
                                 # replicate (length rest) None,
                     multiStream = (rest \<noteq> [])\<rparr>"
proof -
  from assms have ne: "Encodings p \<noteq> []" and nr: "\<not> received r"
    by (simp_all add: Receive_success_guards)
  then obtain enc rest where e: "Encodings p = enc # rest"
    by (cases "Encodings p") auto
  from ne nr have R: "Receive p r = close_received (Receive_body p r)"
    by (simp add: Receive_def)
  with assms have ok: "fst (snd (Receive_body p r)) = None"
    by (simp add: snd_close_received)
  have "track (fst (Receive p r)) = track (fst (Receive_body p r))"
    by (simp add: R fst_close_received)
  with Receive_body_track [OF e, of r] ok e show ?thesis
    by simp
qed

text \<open>
  C2, as stated, at the three encodings \<open>q\<close>, \<open>h\<close>, \<open>f\<close> on a transport where every
  stream opens: \<open>Receive\<close> succeeds and the track has three positions, but only the
  first holds a stream; the identifiers \<open>h\<close> and \<open>f\<close> are at no position.
\<close>

theorem Receive_qhf_only_first_layer:
  "fst (snd (Receive encodings_qhf (created_receiver working_transport))) = None
   \<and> map enc_RID (Encodings encodings_qhf) = [''q'', ''h'', ''f'']
   \<and> map_option (map (map_option rid) \<circ> streams)
        (track (fst (Receive encodings_qhf (created_receiver working_transport))))
       = Some [Some ''q'', None, None]"
  by (simp add: Receive_qhf) (simp add: encodings_qhf_def)

text \<open>
  C2, amended: when \<open>Receive\<close> succeeds the encoding list is not empty, the track has
  one position for each encoding, and the first position holds a stream with the
  identifier of the first encoding. The positions after the first hold no stream, since
  the loop over the encodings ends after its first iteration. So every identifier of the
  input is present at its position exactly when the list has a single encoding.
\<close>

theorem Receive_builds_first_layer:
  assumes "fst (snd (Receive p r)) = None"
  shows "Encodings p \<noteq> [] \<and>
         (\<exists>t s. track (fst (Receive p r)) = Some t \<and>
            length (streams t) = length (Encodings p) \<and>
            streams t ! 0 = Some s \<and> rid s = enc_RID (Encodings p ! 0) \<and>
            (\<forall>i. 0 < i \<and> i < length (Encodings p) \<longrightarrow> streams t ! i = None) \<and>
            (length (Encodings p) = 1 \<longrightarrow>
               map (map_option rid) (streams t)
                 = map (\<lambda>enc. Some (enc_RID enc)) (Encodings p)))"
proof -
  from Receive_success_track [OF assms] obtain enc rest where
    e: "Encodings p = enc # rest" and
    t: "track (fst (Receive p r))
          = Some \<lparr>kind = rkind r,
                  streams = Some ((new_TrackRTPStream enc)\<lparr>ready := True\<rparr>)
                              # replicate (length rest) None,
                  multiStream = (rest \<noteq> [])\<rparr>"
    by blast
  from e t show ?thesis
    by (auto simp: new_TrackRTPStream_def nth_Cons')
qed

theorem Receive_builds_first_layer_witness:
  "fst (snd (Receive encodings_qhf (created_receiver working_transport))) = None
   \<and> Encodings encodings_qhf \<noteq> []
   \<and> (\<exists>t s. track (fst (Receive encodings_qhf (created_receiver working_transport))) = Some t
        \<and> length (streams t) = 3 \<and> streams t ! 0 = Some s \<and> rid s = ''q'')"
proof -
  have ok: "fst (snd (Receive encodings_qhf (created_receiver working_transport))) = None"
    by (simp add: Receive_qhf)
  from Receive_builds_first_layer [OF ok] ok show ?thesis
    by (auto simp: encodings_qhf_def)
qed

subsection \<open>Receive and the latch\<close>

text \<open>
  C3, as stated, on a transport whose RTP read stream fails to open: \<open>Receive\<close> returns
  the transport's error, and yet the latch is signalled; a \<open>Read\<close> is no longer blocked
  and goes on to read from a control stream that was never opened.
\<close>

theorem Receive_error_signals_latch:
  "fst (snd (Receive encodings_qhf (created_receiver failing_transport)))
     = Some (ExternalError ''open failed'')
   \<and> \<not> received (created_receiver failing_transport)
   \<and> received (fst (Receive encodings_qhf (created_receiver failing_transport)))
   \<and> Read (fst (Receive encodings_qhf (created_receiver failing_transport))) = Some None"
  by (simp add: Receive_qhf_failing Read_def) (simp add: created_receiver_def)

text \<open>
  C3, amended: \<open>Receive\<close> signals the latch on every call that gets past its two guards
  (a non-empty encoding list, a latch not yet signalled), whether the call then returns
  success or a transport error. A call stopped by a guard returns an error and leaves the
  receiver, and so the latch, as it was. Hence after any call the latch is signalled iff
  it was before or the list was not empty, and every call that returns success has
  signalled it.
\<close>

theorem Receive_latch:
  "received (fst (Receive p r)) = (received r \<or> Encodings p \<noteq> [])
   \<and> (fst (snd (Receive p r)) = None \<longrightarrow> \<not> received r \<and> received (fst (Receive p r)))
   \<and> (Encodings p = [] \<or> received r \<longrightarrow>
        fst (Receive p r) = r \<and> fst (snd (Receive p r)) \<noteq> None)"
  by (auto simp: Receive_def fst_close_received)

theorem Receive_latch_witness:
  "fst (snd (Receive encodings_qhf (created_receiver working_transport))) = None
   \<and> Encodings encodings_qhf \<noteq> []
   \<and> \<not> received (created_receiver working_transport)
   \<and> received (fst (Receive encodings_qhf (created_receiver working_transport)))
   \<and> received receiving_receiver
   \<and> fst (Receive encodings_qhf receiving_receiver) = receiving_receiver
   \<and> fst (snd (Receive encodings_qhf receiving_receiver)) \<noteq> None"
proof -
  have ok: "fst (snd (Receive encodings_qhf (created_receiver working_transport))) = None"
    by (simp add: Receive_qhf)
  have ne: "Encodings encodings_qhf \<noteq> []"
    by (simp add: encodings_qhf_def)
  have rr: "received receiving_receiver"
    by (simp add: receiving_receiver_eq)
  from ok ne rr
    Receive_latch [of encodings_qhf "created_receiver working_transport"]
    Receive_latch [of encodings_qhf receiving_receiver]
  show ?thesis by simp
qed

text \<open>
  C4: \<open>Receive\<close> succeeds at most once. After a \<open>Receive\<close> call with a non-empty
  encoding list has returned, every later \<open>Receive\<close> call with a non-empty list,
  whatever \<open>Receive\<close> and \<open>Stop\<close> calls came in between, is rejected with the error
  "Receive has already been called" (the spec's AlreadyReceiving) and changes nothing;
  and after a \<open>Receive\<close> call that returned success no later call returns success.
\<close>

theorem Receive_at_most_once:
  "(Encodings p1 \<noteq> [] \<and> Encodings p2 \<noteq> [] \<longrightarrow>
      Receive p2 (run_calls cs (fst (Receive p1 r)))
        = (run_calls cs (fst (Receive p1 r)),
           Some (Errorf ''Receive has already been called''), []))
   \<and> (fst (snd (Receive p1 r)) = None \<longrightarrow>
        fst (snd (Receive p2 (run_calls cs (fst (Receive p1 r))))) \<noteq> None)"
proof (intro conjI impI)
  assume ne: "Encodings p1 \<noteq> [] \<and> Encodings p2 \<noteq> []"
  then have "received (fst (Receive p1 r))"
    by (simp add: Receive_received)
  then have "received (run_calls cs (fst (Receive p1 r)))"
    by (rule run_calls_received)
  with ne show "Receive p2 (run_calls cs (fst (Receive p1 r)))
        = (run_calls cs (fst (Receive p1 r)),
           Some (Errorf ''Receive has already been called''), [])"
    by (simp add: Receive_when_received)
next
  assume ok: "fst (snd (Receive p1 r)) = None"
  then have "Encodings p1 \<noteq> []"
    by (simp add: Receive_success_guards)
  then have "received (fst (Receive p1 r))"
    by (simp add: Receive_received)
  then have "received (run_calls cs (fst (Receive p1 r)))"
    by (rule run_calls_received)
  then show "fst (snd (Receive p2 (run_calls cs (fst (Receive p1 r))))) \<noteq> None"
    by (rule Receive_error_when_received)
qed

theorem Receive_at_most_once_witness:
  "Encodings encodings_qhf \<noteq> []
   \<and> fst (snd (Receive encodings_qhf (created_receiver working_transport))) = None
   \<and> fst (snd (Receive encodings_qhf
        (run_calls [CallStop close_ok]
           (fst (Receive encodings_qhf (created_receiver working_transport))))))
       = Some (Errorf ''Receive has already been called'')"
proof -
  have ok: "fst (snd (Receive encodings_qhf (created_receiver working_transport))) = None"
    by (simp add: Receive_qhf)
  have ne: "Encodings encodings_qhf \<noteq> []"
    by (simp add: encodings_qhf_def)
  from ok ne
    Receive_at_most_once [of encodings_qhf encodings_qhf "[CallStop close_ok]"
      "created_receiver working_transport"]
  show ?thesis by simp
qed

text \<open>
  C6: \<open>Receive\<close> with an empty encoding list returns the error "no encodings provided"
  (the spec's InvalidArgument), makes no call on the transport and leaves the receiver
  exactly as it was: the track, the stream fields, the latch and the closed marker are
  untouched.
\<close>

theorem Receive_no_encodings:
  "Receive (p\<lparr>Encodings := []\<rparr>) r = (r, Some (Errorf ''no encodings provided''), [])"
  by (simp add: Receive_def)

subsection \<open>Stop\<close>

text \<open>
  C8: \<open>Stop\<close> is idempotent. Once a \<open>Stop\<close> call has returned success the closed
  marker is set, and every later \<open>Stop\<close> call, directly after it or after any further
  \<open>Receive\<close> and \<open>Stop\<close> calls, returns success, makes no \<open>Close\<close> call and leaves
  the receiver as it found it, with the marker still set.
\<close>

theorem Stop_idempotent:
  assumes "fst (snd (Stop env1 r)) = None"
  shows "closed (fst (Stop env1 r))
     \<and> Stop env2 (fst (Stop env1 r)) = (fst (Stop env1 r), None, [])
     \<and> closed (run_calls cs (fst (Stop env1 r)))
     \<and> Stop env2 (run_calls cs (fst (Stop env1 r)))
         = (run_calls cs (fst (Stop env1 r)), None, [])"
proof -
  have c: "closed (fst (Stop env1 r))"
    using assms by (rule Stop_success_closed)
  then have "closed (run_calls cs (fst (Stop env1 r)))"
    by (rule run_calls_closed)
  with c show ?thesis
    by (simp add: Stop_when_closed)
qed

theorem Stop_idempotent_witness:
  "fst (snd (Stop close_ok receiving_receiver)) = None
   \<and> snd (snd (Stop close_ok receiving_receiver))
       = [CloseRTCP (ReadStreamSRTCP 111), CloseRTP (ReadStreamSRTP 111)]
   \<and> closed (fst (Stop close_ok receiving_receiver))
   \<and> Stop close_rtcp_fails (fst (Stop close_ok receiving_receiver))
       = (fst (Stop close_ok receiving_receiver), None, [])"
proof -
  have ok: "fst (snd (Stop close_ok receiving_receiver)) = None"
    by (simp add: receiving_receiver_eq Stop_def close_ok_def)
  have calls: "snd (snd (Stop close_ok receiving_receiver))
       = [CloseRTCP (ReadStreamSRTCP 111), CloseRTP (ReadStreamSRTP 111)]"
    by (simp add: receiving_receiver_eq Stop_def close_ok_def)
  from ok calls Stop_idempotent [OF ok, of close_rtcp_fails "[]"] show ?thesis
    by simp
qed

text \<open>
  C10: a \<open>Stop\<close> call that returns an error (the \<open>Close\<close> of the control stream or of
  the RTP stream failed) leaves the receiver as it was, with the closed marker not set,
  so the next \<open>Stop\<close> call is not a no-op: it makes \<open>Close\<close> calls again, starting
  with the same stream as the failed call did. On a receiver whose marker is not set, a
  \<open>Stop\<close> call sets the marker exactly when it returns success.
\<close>

theorem Stop_error_leaves_open:
  "(fst (snd (Stop env r)) = Some e \<longrightarrow>
      fst (Stop env r) = r \<and> \<not> closed (fst (Stop env r))
      \<and> snd (snd (Stop env' (fst (Stop env r)))) \<noteq> []
      \<and> take 1 (snd (snd (Stop env' (fst (Stop env r))))) = take 1 (snd (snd (Stop env r))))
   \<and> (\<not> closed r \<longrightarrow> closed (fst (Stop env r)) = (fst (snd (Stop env r)) = None))"
  by (auto simp: Stop_def Let_def split: if_splits option.splits prod.splits)

theorem Stop_error_leaves_open_witness:
  "fst (snd (Stop close_rtcp_fails receiving_receiver)) = Some (ExternalError ''close failed'')
   \<and> \<not> closed receiving_receiver
   \<and> \<not> closed (fst (Stop close_rtcp_fails receiving_receiver))
   \<and> snd (snd (Stop close_rtcp_fails receiving_receiver)) = [CloseRTCP (ReadStreamSRTCP 111)]
   \<and> take 1 (snd (snd (Stop close_ok (fst (Stop close_rtcp_fails receiving_receiver)))))
       = [CloseRTCP (ReadStreamSRTCP 111)]"
proof -
  have err: "fst (snd (Stop close_rtcp_fails receiving_receiver))
               = Some (ExternalError ''close failed'')"
    by (simp add: receiving_receiver_eq Stop_def close_rtcp_fails_def)
  have calls: "snd (snd (Stop close_rtcp_fails receiving_receiver))
                 = [CloseRTCP (ReadStreamSRTCP 111)]"
    by (simp add: receiving_receiver_eq Stop_def close_rtcp_fails_def)
  have nc: "\<not> closed receiving_receiver"
    by (simp add: receiving_receiver_eq)
  from err have
    "\<not> closed (fst (Stop close_rtcp_fails receiving_receiver))
     \<and> take 1 (snd (snd (Stop close_ok (fst (Stop close_rtcp_fails receiving_receiver)))))
         = take 1 (snd (snd (Stop close_rtcp_fails receiving_receiver)))"
    using Stop_error_leaves_open [of close_rtcp_fails receiving_receiver
      "ExternalError ''close failed''" close_ok]
    by blast
  with err calls nc show ?thesis by simp
qed

section \<open>Properties of the example programs\<close>

subsection \<open>The read loop\<close>

lemma written_append: "written (xs @ ys) = written xs @ written ys"
  by (induction xs rule: written.induct) simp_all

lemma body_simulcast_written:
  assumes "outputTracks k = Some out"
  shows "set (written (fst (body_simulcast outputTracks k err io)))
           \<subseteq> {(k, q\<lparr>SSRC := TrackSSRC out\<rparr>) | q. read_packet io = Some q}"
  using assms
  by (auto simp: body_simulcast_def Let_def rewrite_and_write_def
        split: option.splits prod.splits if_splits)

lemma body_echo_written:
  assumes "outputTracks k = Some out"
  shows "set (written (fst (body_echo outputTracks k io)))
           \<subseteq> {(k, q\<lparr>SSRC := TrackSSRC out\<rparr>) | q. read_packet io = Some q}"
  using assms
  by (auto simp: body_echo_def Let_def rewrite_and_write_def
        split: option.splits prod.splits if_splits)

lemma run_loop_written:
  assumes "\<And>io. io \<in> set ios \<Longrightarrow> set (written (fst (body io))) \<subseteq> W io"
  shows "set (written (fst (run_loop body ios))) \<subseteq> (\<Union>io \<in> set ios. W io)"
  using assms
proof (induction ios)
  case Nil
  then show ?case by simp
next
  case (Cons io ios)
  have here: "set (written (fst (body io))) \<subseteq> W io"
    using Cons.prems by simp
  have rest: "set (written (fst (run_loop body ios))) \<subseteq> (\<Union>io \<in> set ios. W io)"
    using Cons.IH Cons.prems by simp
  obtain evs p where b: "body io = (evs, p)"
    by (cases "body io")
  show ?case
  proof (cases p)
    case None
    obtain evs' oc where l: "run_loop body ios = (evs', oc)"
      by (cases "run_loop body ios")
    from here rest b None l show ?thesis
      by (auto simp: written_append)
  next
    case (Some v)
    with here b show ?thesis by auto
  qed
qed

lemma read_loop_echo_read_error:
  assumes "read_err io = Some e"
  shows "read_loop_echo outputTracks k (io # ios)
           = ([CallReadRTP], Panicked (PanicError (Some e)))"
  using assms by (simp add: read_loop_echo_def body_echo_def)

lemma outputTracks_main_q:
  "outputTracks_main pt sq sh sf ''q'' = Some (NewTrack pt sq ''video_q'' ''pion_q'')"
  by (simp add: outputTracks_main_def)

text \<open>
  C1: in both programs, when the layer's identifier has an output track, every packet
  the read loop hands to \<open>WriteRTP\<close> goes to that track and is a packet returned by
  \<open>ReadRTP\<close> whose SSRC field has been overwritten with the output track's own SSRC.
  The SSRC the packet arrived with is gone: the written packet bears the output track's
  SSRC whatever the inbound one was.
\<close>

theorem forwarded_packets_bear_outbound_ssrc:
  assumes "outputTracks k = Some out"
  shows "(\<forall>(k', p) \<in> set (written (fst (read_loop_simulcast outputTracks k err ios))).
            k' = k \<and> SSRC p = TrackSSRC out \<and>
            (\<exists>io \<in> set ios. \<exists>q. read_packet io = Some q \<and> p = q\<lparr>SSRC := TrackSSRC out\<rparr>))
       \<and> (\<forall>(k', p) \<in> set (written (fst (read_loop_echo outputTracks k ios))).
            k' = k \<and> SSRC p = TrackSSRC out \<and>
            (\<exists>io \<in> set ios. \<exists>q. read_packet io = Some q \<and> p = q\<lparr>SSRC := TrackSSRC out\<rparr>))"
proof -
  let ?W = "\<lambda>io. {(k, q\<lparr>SSRC := TrackSSRC out\<rparr>) | q. read_packet io = Some q}"
  have s: "set (written (fst (read_loop_simulcast outputTracks k err ios)))
             \<subseteq> (\<Union>io \<in> set ios. ?W io)"
    unfolding read_loop_simulcast_def
    using assms by (intro run_loop_written body_simulcast_written)
  have e: "set (written (fst (read_loop_echo outputTracks k ios)))
             \<subseteq> (\<Union>io \<in> set ios. ?W io)"
    unfolding read_loop_echo_def
    using assms by (intro run_loop_written body_echo_written)
  from s e show ?thesis by fastforce
qed

theorem forwarded_packets_bear_outbound_ssrc_witness:
  "outputTracks_main 96 222 333 444 ''q'' = Some (NewTrack 96 222 ''video_q'' ''pion_q'')
   \<and> written (fst (read_loop_simulcast (outputTracks_main 96 222 333 444) ''q'' None
                      [read_ok None]))
       = [(''q'', packet_111\<lparr>SSRC := 222\<rparr>)]
   \<and> written (fst (read_loop_echo (outputTracks_main 96 222 333 444) ''q'' [read_ok None]))
       = [(''q'', packet_111\<lparr>SSRC := 222\<rparr>)]
   \<and> SSRC packet_111 = 111
   \<and> SSRC (packet_111\<lparr>SSRC := 222\<rparr>) = TrackSSRC (NewTrack 96 222 ''video_q'' ''pion_q'')"
proof -
  have q: "outputTracks_main 96 222 333 444 ''q''
             = Some (NewTrack 96 222 ''video_q'' ''pion_q'')"
    by (rule outputTracks_main_q)
  have ws: "written (fst (read_loop_simulcast (outputTracks_main 96 222 333 444) ''q'' None
                      [read_ok None]))
              = [(''q'', packet_111\<lparr>SSRC := 222\<rparr>)]"
    by (simp add: read_loop_simulcast_def body_simulcast_def rewrite_and_write_def q
          read_ok_def NewTrack_def TrackSSRC_def)
  have we: "written (fst (read_loop_echo (outputTracks_main 96 222 333 444) ''q''
                      [read_ok None]))
              = [(''q'', packet_111\<lparr>SSRC := 222\<rparr>)]"
    by (simp add: read_loop_echo_def body_echo_def rewrite_and_write_def q
          read_ok_def NewTrack_def TrackSSRC_def)
  from forwarded_packets_bear_outbound_ssrc
         [where outputTracks = "outputTracks_main 96 222 333 444" and k = "''q''"
            and out = "NewTrack 96 222 ''video_q'' ''pion_q''" and err = None
            and ios = "[read_ok None]"] q ws
  have "SSRC (packet_111\<lparr>SSRC := 222\<rparr>) = TrackSSRC (NewTrack 96 222 ''video_q'' ''pion_q'')"
    by simp
  with q ws we show ?thesis
    by (simp add: packet_111_def)
qed

text \<open>
  C5: in both programs, on a write step (the identifier has an output track and the read
  returned a packet; in the simulcast example the captured \<open>err\<close> is \<open>nil\<close>, in
  the echo variant the read returned no error): when \<open>WriteRTP\<close> returns
  \<open>io.ErrClosedPipe\<close> the loop goes on with its next iteration, and when it returns
  any other error the loop ends there in a panic that carries this error.
\<close>

theorem closed_pipe_swallowed_other_write_errors_fatal:
  assumes "outputTracks k = Some out" and "read_packet io = Some q"
  shows "(write_err io = Some ErrClosedPipe \<longrightarrow>
           read_loop_simulcast outputTracks k None (io # ios)
             = (CallReadRTP # CallWriteRTP k (q\<lparr>SSRC := TrackSSRC out\<rparr>)
                  # fst (read_loop_simulcast outputTracks k None ios),
                snd (read_loop_simulcast outputTracks k None ios))
         \<and> (read_err io = None \<longrightarrow>
              read_loop_echo outputTracks k (io # ios)
                = (CallReadRTP # CallWriteRTP k (q\<lparr>SSRC := TrackSSRC out\<rparr>)
                     # fst (read_loop_echo outputTracks k ios),
                   snd (read_loop_echo outputTracks k ios))))
       \<and> (\<forall>e. write_err io = Some e \<and> e \<noteq> ErrClosedPipe \<longrightarrow>
           read_loop_simulcast outputTracks k None (io # ios)
             = ([CallReadRTP, CallWriteRTP k (q\<lparr>SSRC := TrackSSRC out\<rparr>)],
                Panicked (PanicError (Some e)))
         \<and> (read_err io = None \<longrightarrow>
              read_loop_echo outputTracks k (io # ios)
                = ([CallReadRTP, CallWriteRTP k (q\<lparr>SSRC := TrackSSRC out\<rparr>)],
                   Panicked (PanicError (Some e)))))"
  using assms
  by (auto simp: read_loop_simulcast_def read_loop_echo_def body_simulcast_def body_echo_def
        rewrite_and_write_def Let_def split: prod.splits)

theorem closed_pipe_swallowed_other_write_errors_fatal_witness:
  "outputTracks_main 96 222 333 444 ''q'' = Some (NewTrack 96 222 ''video_q'' ''pion_q'')
   \<and> read_packet (read_ok (Some ErrClosedPipe)) = Some packet_111
   \<and> read_err (read_ok (Some ErrClosedPipe)) = None
   \<and> write_err (read_ok (Some ErrClosedPipe)) = Some ErrClosedPipe
   \<and> write_err (read_ok (Some (ExternalError ''write failed'')))
       = Some (ExternalError ''write failed'')
   \<and> ExternalError ''write failed'' \<noteq> ErrClosedPipe
   \<and> read_loop_simulcast (outputTracks_main 96 222 333 444) ''q'' None
        [read_ok (Some ErrClosedPipe)]
       = ([CallReadRTP,
           CallWriteRTP ''q''
             (packet_111\<lparr>SSRC := TrackSSRC (NewTrack 96 222 ''video_q'' ''pion_q'')\<rparr>)],
          BlockedInReadRTP)
   \<and> read_loop_echo (outputTracks_main 96 222 333 444) ''q''
        [read_ok (Some (ExternalError ''write failed'')), read_ok None]
       = ([CallReadRTP,
           CallWriteRTP ''q''
             (packet_111\<lparr>SSRC := TrackSSRC (NewTrack 96 222 ''video_q'' ''pion_q'')\<rparr>)],
          Panicked (PanicError (Some (ExternalError ''write failed''))))"
proof -
  have q: "outputTracks_main 96 222 333 444 ''q''
             = Some (NewTrack 96 222 ''video_q'' ''pion_q'')"
    by (rule outputTracks_main_q)
  have p: "\<And>w. read_packet (read_ok w) = Some packet_111"
    and r: "\<And>w. read_err (read_ok w) = None"
    and w: "\<And>w. write_err (read_ok w) = w"
    by (simp_all add: read_ok_def)
  have nil: "read_loop_simulcast (outputTracks_main 96 222 333 444) ''q'' None []
               = ([], BlockedInReadRTP)"
    by (simp add: read_loop_simulcast_def)
  from closed_pipe_swallowed_other_write_errors_fatal
         [where outputTracks = "outputTracks_main 96 222 333 444" and k = "''q''"
            and out = "NewTrack 96 222 ''video_q'' ''pion_q''" and q = packet_111
            and io = "read_ok (Some ErrClosedPipe)" and ios = "[]"]
    closed_pipe_swallowed_other_write_errors_fatal
         [where outputTracks = "outputTracks_main 96 222 333 444" and k = "''q''"
            and out = "NewTrack 96 222 ''video_q'' ''pion_q''" and q = packet_111
            and io = "read_ok (Some (ExternalError ''write failed''))"
            and ios = "[read_ok None]"]
    q p r w nil
  show ?thesis by simp
qed

lemma run_loop_panic:
  assumes "body io = (evs, Some pv)"
  shows "run_loop body (io # ios) = (evs, Panicked pv)"
  using assms by simp

lemma run_loop_ends_at_panic:
  assumes "snd (body io) \<noteq> None"
  shows "run_loop body (pre @ io # ios) = run_loop body (pre @ [io])
         \<and> snd (run_loop body (pre @ [io])) \<noteq> BlockedInReadRTP"
proof (induction pre)
  case Nil
  obtain evs p where b: "body io = (evs, p)"
    by (cases "body io")
  with assms obtain pv where "p = Some pv"
    by auto
  with b show ?case
    by simp
next
  case (Cons a pre)
  obtain evs p where b: "body a = (evs, p)"
    by (cases "body a")
  show ?case
  proof (cases p)
    case None
    with b Cons.IH show ?thesis
      by (auto split: prod.splits)
  next
    case (Some pv)
    with b show ?thesis
      by simp
  qed
qed

lemma body_echo_read_error:
  assumes "read_err io = Some e"
  shows "body_echo outputTracks k io = ([CallReadRTP], Some (PanicError (Some e)))"
  using assms by (simp add: body_echo_def)

lemma body_simulcast_read_error:
  assumes "read_err io = Some e" and "read_packet io = None"
  shows "body_simulcast outputTracks k err io
           = ([CallReadRTP],
              Some (if err \<noteq> None then PanicError (Some e) else NilDereference))"
  using assms
  by (simp add: body_simulcast_def rewrite_and_write_def split: option.splits)

text \<open>
  C7: in both programs a failed read ends the read loop. When \<open>ReadRTP\<close> returns an
  error, and with it no packet, the iteration makes no \<open>WriteRTP\<close> call and ends in a
  panic: in the echo variant the panic carries the error; in the simulcast example it
  carries the error when the captured \<open>err\<close> of \<open>main\<close> is set, and otherwise it is
  the panic of the assignment to \<open>packet.SSRC\<close> through the \<open>nil\<close> packet. At whatever
  point of a run the read fails, the loop does what it does when the failed read is the
  last step given: nothing after it is read or forwarded, and the loop is not left
  waiting for a further packet.
\<close>

theorem failed_read_ends_read_loop:
  assumes "read_err io = Some e" and "read_packet io = None"
  shows "read_loop_echo outputTracks k (io # ios)
           = ([CallReadRTP], Panicked (PanicError (Some e)))
       \<and> read_loop_simulcast outputTracks k err (io # ios)
           = ([CallReadRTP],
              Panicked (if err \<noteq> None then PanicError (Some e) else NilDereference))
       \<and> read_loop_echo outputTracks k (pre @ io # ios)
           = read_loop_echo outputTracks k (pre @ [io])
       \<and> snd (read_loop_echo outputTracks k (pre @ [io])) \<noteq> BlockedInReadRTP
       \<and> read_loop_simulcast outputTracks k err (pre @ io # ios)
           = read_loop_simulcast outputTracks k err (pre @ [io])
       \<and> snd (read_loop_simulcast outputTracks k err (pre @ [io])) \<noteq> BlockedInReadRTP"
proof -
  have be: "body_echo outputTracks k io = ([CallReadRTP], Some (PanicError (Some e)))"
    using assms(1) by (rule body_echo_read_error)
  have bs: "body_simulcast outputTracks k err io
              = ([CallReadRTP],
                 Some (if err \<noteq> None then PanicError (Some e) else NilDereference))"
    using assms by (rule body_simulcast_read_error)
  have e1: "read_loop_echo outputTracks k (io # ios)
              = ([CallReadRTP], Panicked (PanicError (Some e)))"
    unfolding read_loop_echo_def using be by (rule run_loop_panic)
  have s1: "read_loop_simulcast outputTracks k err (io # ios)
              = ([CallReadRTP],
                 Panicked (if err \<noteq> None then PanicError (Some e) else NilDereference))"
    unfolding read_loop_simulcast_def using bs by (rule run_loop_panic)
  have e2: "read_loop_echo outputTracks k (pre @ io # ios)
              = read_loop_echo outputTracks k (pre @ [io])
            \<and> snd (read_loop_echo outputTracks k (pre @ [io])) \<noteq> BlockedInReadRTP"
    unfolding read_loop_echo_def
    by (rule run_loop_ends_at_panic) (simp add: be)
  have s2: "read_loop_simulcast outputTracks k err (pre @ io # ios)
              = read_loop_simulcast outputTracks k err (pre @ [io])
            \<and> snd (read_loop_simulcast outputTracks k err (pre @ [io])) \<noteq> BlockedInReadRTP"
    unfolding read_loop_simulcast_def
    by (rule run_loop_ends_at_panic) (simp add: bs)
  from e1 s1 e2 s2 show ?thesis
    by simp
qed

theorem failed_read_ends_read_loop_witness:
  "read_err read_failed = Some (ExternalError ''read failed'')
   \<and> read_packet read_failed = None
   \<and> read_loop_echo (outputTracks_main 96 222 333 444) ''q''
        [read_ok None, read_failed, read_ok None]
       = ([CallReadRTP, CallWriteRTP ''q'' (packet_111\<lparr>SSRC := 222\<rparr>), CallReadRTP],
          Panicked (PanicError (Some (ExternalError ''read failed''))))
   \<and> read_loop_simulcast (outputTracks_main 96 222 333 444) ''q'' None
        [read_ok None, read_failed, read_ok None]
       = ([CallReadRTP, CallWriteRTP ''q'' (packet_111\<lparr>SSRC := 222\<rparr>), CallReadRTP],
          Panicked NilDereference)"
proof -
  have e: "read_err read_failed = Some (ExternalError ''read failed'')"
    and p: "read_packet read_failed = None"
    by (simp_all add: read_failed_def)
  have pe: "read_loop_echo (outputTracks_main 96 222 333 444) ''q'' [read_ok None, read_failed]
       = ([CallReadRTP, CallWriteRTP ''q'' (packet_111\<lparr>SSRC := 222\<rparr>), CallReadRTP],
          Panicked (PanicError (Some (ExternalError ''read failed''))))"
    by (simp add: read_loop_echo_def body_echo_def rewrite_and_write_def outputTracks_main_q
          read_failed_def read_ok_def NewTrack_def TrackSSRC_def)
  have ps: "read_loop_simulcast (outputTracks_main 96 222 333 444) ''q'' None
              [read_ok None, read_failed]
       = ([CallReadRTP, CallWriteRTP ''q'' (packet_111\<lparr>SSRC := 222\<rparr>), CallReadRTP],
          Panicked NilDereference)"
    by (simp add: read_loop_simulcast_def body_simulcast_def rewrite_and_write_def
          outputTracks_main_q read_failed_def read_ok_def NewTrack_def TrackSSRC_def)
  from failed_read_ends_read_loop
         [where io = read_failed and e = "ExternalError ''read failed''"
            and outputTracks = "outputTracks_main 96 222 333 444" and k = "''q''"
            and err = None and pre = "[read_ok None]" and ios = "[read_ok None]", OF e p]
    e p pe ps
  show ?thesis by simp
qed

subsection \<open>The feedback ticker\<close>

lemma sent_append: "sent (xs @ ys) = sent xs @ sent ys"
  by (induction xs rule: sent.induct) simp_all

lemma sent_print_error: "sent (print_error w) = []"
  by (simp add: print_error_def split: option.splits)

lemma sent_tick_simulcast:
  "sent (tick_simulcast inStream w)
     = [[PictureLossIndication 0 (StreamSSRC inStream)],
        [ReceiverEstimatedMaximumBitrate (StreamSSRC inStream) 10000000 []]]"
  by (simp add: tick_simulcast_def sent_append sent_print_error split: prod.splits)

lemma sent_tick_echo:
  "sent (tick_echo inStream w)
     = [[PictureLossIndication 0 (StreamSSRC inStream)],
        [ReceiverEstimatedMaximumBitrate (StreamSSRC inStream) 10000000 []]]"
  by (simp add: tick_echo_def sent_append sent_print_error split: prod.splits)

lemma sent_ticker_loop:
  assumes "\<And>w. sent (tick w) = msgs"
  shows "sent (ticker_loop tick ws) = concat (replicate (length ws) msgs)"
  using assms by (induction ws) (simp_all add: sent_append)

text \<open>
  C9, as stated, at one tick for the stream of the layer \<open>q\<close> (SSRC 111) in either
  program: the Picture Loss Indication is sent first and is addressed to 111, but the
  REMB that follows is addressed to no source at all: its list of target SSRCs is empty,
  and 111 is its sender SSRC.
\<close>

theorem bandwidth_estimate_not_addressed_to_layer:
  "StreamSSRC inStream_q = 111
   \<and> sent (tick_simulcast inStream_q (None, None))
       = [[PictureLossIndication 0 111], [ReceiverEstimatedMaximumBitrate 111 10000000 []]]
   \<and> sent (tick_echo inStream_q (None, None))
       = [[PictureLossIndication 0 111], [ReceiverEstimatedMaximumBitrate 111 10000000 []]]
   \<and> DestinationSSRC (PictureLossIndication 0 111) = [111]
   \<and> DestinationSSRC (ReceiverEstimatedMaximumBitrate 111 10000000 []) = []
   \<and> 111 \<notin> set (DestinationSSRC (ReceiverEstimatedMaximumBitrate 111 10000000 []))"
  by (simp add: sent_tick_simulcast sent_tick_echo) (simp add: StreamSSRC_def inStream_q_def)

text \<open>
  C9, amended: in both programs and for every stream, each tick makes exactly two
  \<open>WriteRTCP\<close> calls, whatever the calls return: first the Picture Loss Indication,
  then the REMB. The Picture Loss Indication is addressed to the stream's SSRC (its
  \<open>MediaSSRC\<close>). The REMB carries the stream's SSRC as its sender (\<open>SenderSSRC\<close>),
  a bitrate of 10000000 and an empty list of target SSRCs. Over any number of ticks the
  messages sent are that pair, repeated once for each tick.
\<close>

theorem keyframe_request_before_bandwidth_estimate:
  "sent (tick_simulcast inStream w)
     = [[PictureLossIndication 0 (StreamSSRC inStream)],
        [ReceiverEstimatedMaximumBitrate (StreamSSRC inStream) 10000000 []]]
   \<and> sent (tick_echo inStream w)
     = [[PictureLossIndication 0 (StreamSSRC inStream)],
        [ReceiverEstimatedMaximumBitrate (StreamSSRC inStream) 10000000 []]]
   \<and> sent (feedback_simulcast inStream ws)
     = concat (replicate (length ws)
         [[PictureLossIndication 0 (StreamSSRC inStream)],
          [ReceiverEstimatedMaximumBitrate (StreamSSRC inStream) 10000000 []]])
   \<and> sent (feedback_echo inStream ws)
     = concat (replicate (length ws)
         [[PictureLossIndication 0 (StreamSSRC inStream)],
          [ReceiverEstimatedMaximumBitrate (StreamSSRC inStream) 10000000 []]])
   \<and> map DestinationSSRC (concat (sent (tick_simulcast inStream w)))
     = [[StreamSSRC inStream], []]
   \<and> map DestinationSSRC (concat (sent (tick_echo inStream w)))
     = [[StreamSSRC inStream], []]
   \<and> map remb_SenderSSRC (tl (concat (sent (tick_simulcast inStream w))))
     = [StreamSSRC inStream]
   \<and> map remb_SenderSSRC (tl (concat (sent (tick_echo inStream w))))
     = [StreamSSRC inStream]"
  by (simp add: feedback_simulcast_def feedback_echo_def sent_tick_simulcast sent_tick_echo
        sent_ticker_loop [OF sent_tick_simulcast] sent_ticker_loop [OF sent_tick_echo])

end
